theory Spec2Isabelle
  imports
    Complex_Main
    "HOL-Library.Sublist"
    "HOL-Library.Char_ord"
    "HOL-Library.List_Lexorder"
begin

section \<open>Python values and exceptions\<close>

text \<open>
  The dashboard (\<^verbatim>\<open>pulse_id_sql_interface.py\<close>) works on values decoded from JSON:
  offers, token records and the language model's answers. \<^verbatim>\<open>json\<close> models the Python
  value such a document decodes to. Python's \<^verbatim>\<open>None\<close> is \<open>JNull\<close>; a \<^verbatim>\<open>dict\<close> is an
  association list with distinct keys (\<open>map_of\<close> looks a key up); a finite \<^verbatim>\<open>float\<close> is the
  rational number it denotes, which is all that equality and truthiness read of it
  (NaN and the infinities are not represented).
\<close>

datatype json =
    JNull
  | JBool bool
  | JInt int
  | JFloat rat
  | JStr string
  | JArr "json list"
  | JObj "(string \<times> json) list"

text \<open>
  Every exception the code can meet is a subclass of \<^verbatim>\<open>Exception\<close>. \<open>Exception msg\<close> is
  the plain \<^verbatim>\<open>raise Exception(msg)\<close> of the source; \<open>ExternalError\<close> is whatever the HTTP
  or language-model client raises on its own (connection failure, timeout, API error).
\<close>

datatype error =
    Exception string
  | AttributeError
  | TypeError
  | KeyError
  | IndexError
  | ValueError
  | JSONDecodeError
  | ExternalError string

text \<open>Sequencing of statements that may raise: the first exception ends the block.\<close>

definition bind_e :: "error + 'a \<Rightarrow> ('a \<Rightarrow> error + 'b) \<Rightarrow> error + 'b" where
  "bind_e m f = (case m of Inl e \<Rightarrow> Inl e | Inr x \<Rightarrow> f x)"

text \<open>Truth value testing (\<^verbatim>\<open>if v\<close>, \<^verbatim>\<open>a or b\<close>, \<^verbatim>\<open>a and b\<close>).\<close>

fun truthy :: "json \<Rightarrow> bool" where
  "truthy JNull = False"
| "truthy (JBool b) = b"
| "truthy (JInt i) = (i \<noteq> 0)"
| "truthy (JFloat q) = (q \<noteq> 0)"
| "truthy (JStr s) = (s \<noteq> [])"
| "truthy (JArr xs) = (xs \<noteq> [])"
| "truthy (JObj kvs) = (kvs \<noteq> [])"

text \<open>\<^verbatim>\<open>a or b\<close>: the first operand when it is truthy, the second otherwise.\<close>

definition py_or :: "json \<Rightarrow> json \<Rightarrow> json" where
  "py_or a b = (if truthy a then a else b)"

text \<open>\<^verbatim>\<open>v.get(key, default)\<close>: only a dict has the method.\<close>

fun py_get :: "json \<Rightarrow> string \<Rightarrow> json \<Rightarrow> error + json" where
  "py_get (JObj kvs) k d = Inr (case map_of kvs k of Some v \<Rightarrow> v | None \<Rightarrow> d)"
| "py_get _ k d = Inl AttributeError"

text \<open>\<^verbatim>\<open>v[key]\<close> with a string key.\<close>

fun py_item :: "json \<Rightarrow> string \<Rightarrow> error + json" where
  "py_item (JObj kvs) k = (case map_of kvs k of Some v \<Rightarrow> Inr v | None \<Rightarrow> Inl KeyError)"
| "py_item _ k = Inl TypeError"

text \<open>
  \<^verbatim>\<open>v[0]\<close>: the first element of a list, the first character of a string; a dict decoded
  from JSON has string keys only, so the key \<^verbatim>\<open>0\<close> is missing.
\<close>

fun py_first :: "json \<Rightarrow> error + json" where
  "py_first (JArr []) = Inl IndexError"
| "py_first (JArr (x # xs)) = Inr x"
| "py_first (JStr []) = Inl IndexError"
| "py_first (JStr (c # cs)) = Inr (JStr [c])"
| "py_first (JObj kvs) = Inl KeyError"
| "py_first _ = Inl TypeError"

text \<open>
  \<^verbatim>\<open>for x in v\<close>: the elements of a list, the keys of a dict, the characters of a
  string; nothing else is iterable.
\<close>

fun py_iter :: "json \<Rightarrow> error + json list" where
  "py_iter (JArr xs) = Inr xs"
| "py_iter (JObj kvs) = Inr (map (\<lambda>kv. JStr (fst kv)) kvs)"
| "py_iter (JStr s) = Inr (map (\<lambda>c. JStr [c]) s)"
| "py_iter _ = Inl TypeError"

text \<open>
  Python's \<^verbatim>\<open>==\<close> on decoded values: \<^verbatim>\<open>bool\<close>, \<^verbatim>\<open>int\<close> and \<^verbatim>\<open>float\<close> compare by numeric
  value (\<^verbatim>\<open>True == 1\<close>, \<^verbatim>\<open>1 == 1.0\<close>), lists elementwise, dicts key by key whatever the
  order.
\<close>

fun num_val :: "json \<Rightarrow> rat option" where
  "num_val (JBool b) = Some (if b then 1 else 0)"
| "num_val (JInt i) = Some (of_int i)"
| "num_val (JFloat q) = Some q"
| "num_val _ = None"

fun py_eq :: "json \<Rightarrow> json \<Rightarrow> bool" where
  "py_eq JNull JNull = True"
| "py_eq (JStr s) (JStr t) = (s = t)"
| "py_eq (JArr xs) (JArr ys) = list_all2 py_eq xs ys"
| "py_eq (JObj kvs) (JObj kws) =
     (length kvs = length kws \<and>
      list_all (\<lambda>(k, v). case map_of kws k of None \<Rightarrow> False | Some w \<Rightarrow> py_eq v w) kvs)"
| "py_eq a b =
     (case (num_val a, num_val b) of (Some p, Some q) \<Rightarrow> p = q | _ \<Rightarrow> False)"

text \<open>
  \<^verbatim>\<open>x in c\<close>. In a list: some element equals \<open>x\<close>. In a dict: \<open>x\<close> is hashed first, which
  raises for a list or a dict, and then looked up among the (string) keys. In a string:
  \<open>x\<close> must be a string and is searched as a substring. Any other container raises.
\<close>

fun py_in :: "json \<Rightarrow> json \<Rightarrow> error + bool" where
  "py_in x (JArr ys) = Inr (list_ex (py_eq x) ys)"
| "py_in (JArr xs) (JObj kvs) = Inl TypeError"
| "py_in (JObj xs) (JObj kvs) = Inl TypeError"
| "py_in (JStr s) (JObj kvs) = Inr (s \<in> set (map fst kvs))"
| "py_in x (JObj kvs) = Inr False"
| "py_in (JStr s) (JStr t) = Inr (sublist s t)"
| "py_in x (JStr t) = Inl TypeError"
| "py_in x c = Inl TypeError"

text \<open>
  A list comprehension \<^verbatim>\<open>[x for x in xs if cond(x)]\<close> whose condition may raise: the
  elements are tested in order and the first exception ends the comprehension.
\<close>

fun filter_e :: "('a \<Rightarrow> error + bool) \<Rightarrow> 'a list \<Rightarrow> error + 'a list" where
  "filter_e p [] = Inr []"
| "filter_e p (x # xs) =
     (case p x of
        Inl e \<Rightarrow> Inl e
      | Inr b \<Rightarrow>
          (case filter_e p xs of
             Inl e \<Rightarrow> Inl e
           | Inr ys \<Rightarrow> Inr (if b then x # ys else ys)))"

text \<open>\<^verbatim>\<open>[f(x) for x in xs]\<close> with an \<open>f\<close> that may raise.\<close>

fun map_e :: "('a \<Rightarrow> error + 'b) \<Rightarrow> 'a list \<Rightarrow> error + 'b list" where
  "map_e f [] = Inr []"
| "map_e f (x # xs) =
     (case f x of
        Inl e \<Rightarrow> Inl e
      | Inr y \<Rightarrow> (case map_e f xs of Inl e \<Rightarrow> Inl e | Inr ys \<Rightarrow> Inr (y # ys)))"

section \<open>Stripping the code fence of an extraction response\<close>

text \<open>
  The "Generate Offer" handler cleans the model's answer with
  \<^verbatim>\<open>re.sub(r'```json\n?(.*?)\n?```', r'\1', content, flags=re.DOTALL)\<close>.
  The pattern is: the literal \<^verbatim>\<open>```json\<close>, one optional newline (greedy), a lazy group of any
  characters (newlines too, under \<^verbatim>\<open>DOTALL\<close>), one optional newline (greedy), the literal
  \<^verbatim>\<open>```\<close>. Every match is replaced by its group.
\<close>

definition fence :: string where
  "fence = ''```''"

definition fence_json :: string where
  "fence_json = ''```json''"

definition newline :: string where
  "newline = [CHR 0x0A]"

definition backtick :: char where
  "backtick = CHR 0x60"

text \<open>
  \<open>find_close r\<close> matches \<^verbatim>\<open>(.*?)\n?```\<close> at the start of \<open>r\<close>: the lazy group grows one
  character at a time, and at each length the engine tries the closing part, with the
  newline first and without it second. The result is the group and the text after the
  match.
\<close>

fun find_close :: "string \<Rightarrow> (string \<times> string) option" where
  "find_close [] = None"
| "find_close (c # cs) =
     (if prefix (newline @ fence) (c # cs) then Some ([], drop 4 (c # cs))
      else if prefix fence (c # cs) then Some ([], drop 3 (c # cs))
      else (case find_close cs of None \<Rightarrow> None | Some (b, t) \<Rightarrow> Some (c # b, t)))"

text \<open>
  \<open>match_fence s\<close> matches the whole pattern at the start of \<open>s\<close>: after the seven
  characters of \<^verbatim>\<open>```json\<close> the first optional newline is taken when it is there, and given
  back if the rest then fails.
\<close>

definition match_fence :: "string \<Rightarrow> (string \<times> string) option" where
  "match_fence s =
     (if prefix fence_json s then
        (if prefix newline (drop 7 s) then
           (case find_close (drop 8 s) of
              Some m \<Rightarrow> Some m
            | None \<Rightarrow> find_close (drop 7 s))
         else find_close (drop 7 s))
      else None)"

lemma find_close_shorter:
  "find_close r = Some (b, t) \<Longrightarrow> length t < length r"
proof (induction r arbitrary: b t)
  case Nil
  then show ?case by simp
next
  case (Cons c cs)
  then show ?case
    by (auto split: if_splits option.splits simp: less_Suc_eq)
qed

lemma match_fence_shorter:
  "match_fence s = Some (b, t) \<Longrightarrow> length t < length s"
  by (auto simp: match_fence_def split: if_splits option.splits dest!: find_close_shorter)

text \<open>
  \<open>sub_fence\<close> is the substitution: scanning from the left, a match at the current
  position is replaced by its group and the scan goes on after the match; otherwise the
  character is kept and the scan moves one position on. (A match is never empty.)
\<close>

function sub_fence :: "string \<Rightarrow> string" where
  "sub_fence [] = []"
| "sub_fence (c # cs) =
     (case match_fence (c # cs) of
        Some (b, t) \<Rightarrow> b @ sub_fence t
      | None \<Rightarrow> c # sub_fence cs)"
  by pat_completeness auto
termination
  by (relation "measure length") (auto dest: match_fence_shorter)

section \<open>Naive datetimes and \<^verbatim>\<open>strptime\<close>\<close>

text \<open>
  A naive \<^verbatim>\<open>datetime\<close> is the number of microseconds since 0001-01-01 00:00, computed as
  Python's \<^verbatim>\<open>datetime\<close> module does from the proleptic Gregorian ordinal of the day.
  Subtracting two of them gives a \<^verbatim>\<open>timedelta\<close>, whose \<^verbatim>\<open>.days\<close> is the difference divided
  by one day and rounded down (a negative difference has negative days).
\<close>

type_synonym datetime = int

definition is_leap :: "int \<Rightarrow> bool" where
  "is_leap y = (if y mod 100 = 0 then y mod 400 = 0 else y mod 4 = 0)"

definition days_before_year :: "int \<Rightarrow> int" where
  "days_before_year y = (y - 1) * 365 + (y - 1) div 4 - (y - 1) div 100 + (y - 1) div 400"

definition days_in_month :: "int \<Rightarrow> int \<Rightarrow> int" where
  "days_in_month y m =
     (if m = 2 \<and> is_leap y then 29
      else [31, 28, 31, 30, 31, 30, 31, 31, 30, 31, 30, 31] ! nat (m - 1))"

definition days_before_month :: "int \<Rightarrow> int \<Rightarrow> int" where
  "days_before_month y m =
     [0, 31, 59, 90, 120, 151, 181, 212, 243, 273, 304, 334] ! nat (m - 1)
       + (if m > 2 \<and> is_leap y then 1 else 0)"

definition ymd2ord :: "int \<Rightarrow> int \<Rightarrow> int \<Rightarrow> int" where
  "ymd2ord y m d = days_before_year y + days_before_month y m + d"

definition mk_datetime :: "int \<Rightarrow> int \<Rightarrow> int \<Rightarrow> int \<Rightarrow> int \<Rightarrow> datetime" where
  "mk_datetime y m d H M = (((ymd2ord y m d - 1) * 24 + H) * 60 + M) * 60000000"

definition one_day :: int where
  "one_day = 86400000000"

definition timedelta_days :: "datetime \<Rightarrow> datetime \<Rightarrow> int" where
  "timedelta_days a b = (a - b) div one_day"

text \<open>
  \<^verbatim>\<open>datetime.strptime(s, "%Y-%m-%d %H:%M")\<close>. The library turns the format into the regular
  expression
  \<^verbatim>\<open>(\d\d\d\d)-(1[0-2]|0[1-9]|[1-9])-(3[01]|[12]\d|0[1-9]|[1-9]| [1-9])\s+(2[0-3]|[0-1]\d|\d):([0-5]\d|\d)\<close>,
  matches it at the start of \<open>s\<close>, and raises \<^verbatim>\<open>ValueError\<close> when there is no match, when
  text remains after the match, or when the fields are not a date. Each piece below
  returns the ways it can match, in the order the backtracking engine tries them, with
  the text left over; the first way of the whole expression is the engine's match.
  A character is a code point below 256: among these \<^verbatim>\<open>\d\<close> matches the ten digits
  \<^verbatim>\<open>0\<close> to \<^verbatim>\<open>9\<close>, and \<^verbatim>\<open>\s\<close> the white space of \<open>is_space\<close> (the six ASCII ones,
  the four separators 0x1C to 0x1F, the next-line control 0x85 and the no-break space
  0xA0).
\<close>

definition is_digit :: "char \<Rightarrow> bool" where
  "is_digit c = (c \<in> set ''0123456789'')"

definition digit_val :: "char \<Rightarrow> int" where
  "digit_val c = int (of_char c) - 48"

definition is_space :: "char \<Rightarrow> bool" where
  "is_space c = (c \<in> set [CHR 0x20, CHR 0x09, CHR 0x0A, CHR 0x0B, CHR 0x0C, CHR 0x0D,
                            CHR 0x1C, CHR 0x1D, CHR 0x1E, CHR 0x1F, CHR 0x85, CHR 0xA0])"

definition two_digits :: "char \<Rightarrow> char \<Rightarrow> int" where
  "two_digits a b = 10 * digit_val a + digit_val b"

fun re_lit :: "char \<Rightarrow> string \<Rightarrow> string list" where
  "re_lit x (c # cs) = (if c = x then [cs] else [])"
| "re_lit x [] = []"

fun re_Y :: "string \<Rightarrow> (int \<times> string) list" where
  "re_Y (a # b # c # d # r) =
     (if is_digit a \<and> is_digit b \<and> is_digit c \<and> is_digit d
      then [(100 * two_digits a b + two_digits c d, r)] else [])"
| "re_Y _ = []"

definition re_two :: "(char \<Rightarrow> char \<Rightarrow> bool) \<Rightarrow> string \<Rightarrow> (int \<times> string) list" where
  "re_two ok s =
     (case s of
        a # b # r \<Rightarrow> (if is_digit a \<and> is_digit b \<and> ok a b then [(two_digits a b, r)] else [])
      | _ \<Rightarrow> [])"

definition re_one :: "(char \<Rightarrow> bool) \<Rightarrow> string \<Rightarrow> (int \<times> string) list" where
  "re_one ok s =
     (case s of
        a # r \<Rightarrow> (if is_digit a \<and> ok a then [(digit_val a, r)] else [])
      | _ \<Rightarrow> [])"

definition re_m :: "string \<Rightarrow> (int \<times> string) list" where
  "re_m s =
     re_two (\<lambda>a b. a = CHR ''1'' \<and> b \<in> set ''012'') s
     @ re_two (\<lambda>a b. a = CHR ''0'' \<and> b \<noteq> CHR ''0'') s
     @ re_one (\<lambda>a. a \<noteq> CHR ''0'') s"

definition re_d :: "string \<Rightarrow> (int \<times> string) list" where
  "re_d s =
     re_two (\<lambda>a b. a = CHR ''3'' \<and> b \<in> set ''01'') s
     @ re_two (\<lambda>a b. a \<in> set ''12'') s
     @ re_two (\<lambda>a b. a = CHR ''0'' \<and> b \<noteq> CHR ''0'') s
     @ re_one (\<lambda>a. a \<noteq> CHR ''0'') s
     @ concat (map (re_one (\<lambda>a. a \<noteq> CHR ''0'')) (re_lit CHR '' '' s))"

definition re_H :: "string \<Rightarrow> (int \<times> string) list" where
  "re_H s =
     re_two (\<lambda>a b. a = CHR ''2'' \<and> b \<in> set ''0123'') s
     @ re_two (\<lambda>a b. a \<in> set ''01'') s
     @ re_one (\<lambda>a. True) s"

definition re_M :: "string \<Rightarrow> (int \<times> string) list" where
  "re_M s = re_two (\<lambda>a b. a \<in> set ''012345'') s @ re_one (\<lambda>a. True) s"

text \<open>\<^verbatim>\<open>\s+\<close> is greedy: the longest run of white space first.\<close>

fun re_spaces :: "string \<Rightarrow> string list" where
  "re_spaces [] = []"
| "re_spaces (c # cs) = (if is_space c then re_spaces cs @ [cs] else [])"

definition strptime_matches ::
  "string \<Rightarrow> ((int \<times> int \<times> int \<times> int \<times> int) \<times> string) list" where
  "strptime_matches s =
     [((Y, m, d, H, M), r9).
        (Y, r1) \<leftarrow> re_Y s, r2 \<leftarrow> re_lit CHR ''-'' r1,
        (m, r3) \<leftarrow> re_m r2, r4 \<leftarrow> re_lit CHR ''-'' r3,
        (d, r5) \<leftarrow> re_d r4, r6 \<leftarrow> re_spaces r5,
        (H, r7) \<leftarrow> re_H r6, r8 \<leftarrow> re_lit CHR '':'' r7,
        (M, r9) \<leftarrow> re_M r8]"

definition strptime :: "string \<Rightarrow> error + datetime" where
  "strptime s =
     (case strptime_matches s of
        [] \<Rightarrow> Inl ValueError
      | ((Y, m, d, H, M), rest) # _ \<Rightarrow>
          if rest \<noteq> [] then Inl ValueError
          else if Y < 1 \<or> days_in_month Y m < d then Inl ValueError
          else Inr (mk_datetime Y m d H M))"

text \<open>Called on a decoded value: anything but a string is a \<^verbatim>\<open>TypeError\<close>.\<close>

fun py_strptime :: "json \<Rightarrow> error + datetime" where
  "py_strptime (JStr s) = strptime s"
| "py_strptime _ = Inl TypeError"

section \<open>Session state and messages\<close>

text \<open>
  \<^verbatim>\<open>st.session_state\<close>, lines 10 to 25 of the source. A field that holds \<^verbatim>\<open>None\<close> holds
  \<open>JNull\<close>. The credentials are read from the secrets once, with the empty string for a
  secret that is not configured.
\<close>

record credentials =
  email :: string
  password :: string
  app :: string

record session_state =
  offer_params :: json
  offer_created :: bool
  adjusted_params :: json
  lms_credentials :: credentials
  pending_offers :: json
  filtered_offers :: json

definition initial_state :: "string \<Rightarrow> string \<Rightarrow> session_state" where
  "initial_state lms_email lms_password =
     \<lparr>offer_params = JNull, offer_created = False, adjusted_params = JNull,
      lms_credentials = \<lparr>email = lms_email, password = lms_password, app = ''lms''\<rparr>,
      pending_offers = JNull, filtered_offers = JNull\<rparr>"

text \<open>
  What an action shows to the user: \<^verbatim>\<open>st.error(f"<text>{str(e)}")\<close> with the exception it
  reports, \<^verbatim>\<open>st.warning\<close> and \<^verbatim>\<open>st.info\<close>. A handler returns the new state and the messages
  it showed; an exception that no \<^verbatim>\<open>except\<close> catches ends the script run and is the
  \<open>Inl\<close> result of the handler.
\<close>

datatype message =
    StError string error
  | StWarning string
  | StInfo string

section \<open>Marketplace client\<close>

text \<open>
  The remote service is outside the program. An HTTP exchange either raises in the client
  or gives a response, of which the code reads the status and the decoded body
  (\<^verbatim>\<open>response.json()\<close>, which raises when the body is not JSON). \<^verbatim>\<open>response.ok\<close> is false
  exactly for the statuses 400 to 599.
\<close>

record http_response =
  status_code :: int
  json_body :: "error + json"

definition response_ok :: "http_response \<Rightarrow> bool" where
  "response_ok r = (if 400 \<le> status_code r then 600 \<le> status_code r else True)"

text \<open>\<^verbatim>\<open>auth_data['data']['auth'][0][k]\<close>\<close>

definition auth_field :: "json \<Rightarrow> string \<Rightarrow> error + json" where
  "auth_field auth_data k =
     bind_e (py_item auth_data ''data'') (\<lambda>d.
     bind_e (py_item d ''auth'') (\<lambda>a.
     bind_e (py_first a) (\<lambda>a0.
       py_item a0 k)))"

text \<open>\<open>post\<close> is \<^verbatim>\<open>requests.post\<close> to the login URL with the three credentials as payload.\<close>

definition authenticate_user ::
  "(string \<Rightarrow> string \<Rightarrow> string \<Rightarrow> error + http_response) \<Rightarrow>
   string \<Rightarrow> string \<Rightarrow> string \<Rightarrow> error + json" where
  "authenticate_user post em pw ap =
     bind_e (post em pw ap) (\<lambda>response.
       if \<not> response_ok response then Inl (Exception ''Authentication failed'')
       else
         bind_e (json_body response) (\<lambda>auth_data.
         bind_e (auth_field auth_data ''permissionToken'') (\<lambda>p.
         bind_e (auth_field auth_data ''authToken'') (\<lambda>a.
           Inr (JObj [(''permissionToken'', p), (''authToken'', a)])))))"

text \<open>
  \<open>get\<close> is \<^verbatim>\<open>requests.get\<close> to the listing URL with the two tokens in its headers.
\<close>

definition get_pending_offers ::
  "(json \<Rightarrow> json \<Rightarrow> error + http_response) \<Rightarrow> json \<Rightarrow> json \<Rightarrow> error + json" where
  "get_pending_offers get permission_token auth_token =
     bind_e (get permission_token auth_token) (\<lambda>response.
       if status_code response \<noteq> 200 then Inl (Exception ''Failed to retrieve offers'')
       else json_body response)"

text \<open>
  \<open>fetch_pending_offers\<close> returns the new state, the messages and the function's return
  value (the listing body, or \<^verbatim>\<open>None\<close>). Everything is inside one \<^verbatim>\<open>try\<close>; the only
  assignment to the state is the last statement of that block.
\<close>

definition fetch_pending_offers ::
  "(string \<Rightarrow> string \<Rightarrow> string \<Rightarrow> error + http_response) \<Rightarrow>
   (json \<Rightarrow> json \<Rightarrow> error + http_response) \<Rightarrow>
   session_state \<Rightarrow> session_state \<times> message list \<times> json" where
  "fetch_pending_offers post get st =
     (case
        bind_e (authenticate_user post (email (lms_credentials st))
                  (password (lms_credentials st)) (app (lms_credentials st))) (\<lambda>auth.
        bind_e (py_item auth ''permissionToken'') (\<lambda>p.
        bind_e (py_item auth ''authToken'') (\<lambda>a.
        bind_e (get_pending_offers get p a) (\<lambda>offers.
        bind_e (py_get offers ''offers'' (JArr [])) (\<lambda>v.
          Inr (offers, v))))))
      of
        Inl e \<Rightarrow> (st, [StError ''Failed to fetch offers: '' e], JNull)
      | Inr (offers, v) \<Rightarrow> (st\<lparr>pending_offers := v\<rparr>, [], offers))"

section \<open>Offer filter engine\<close>

text \<open>
  The summary line of one offer (lines 78 to 83). Its text goes to the language model
  only, and the model's answer is a parameter below, so what is kept of the line is
  whether evaluating its six expressions, in order, raises. Formatting a decoded value
  into the line never raises.
\<close>

definition offer_summary :: "json \<Rightarrow> error + unit" where
  "offer_summary offer =
     bind_e (py_get offer ''id'' JNull) (\<lambda>_.
     bind_e (py_get offer ''title'' JNull) (\<lambda>_.
     bind_e (py_get offer ''merchants'' (JArr [JObj []])) (\<lambda>ms.
     bind_e (py_first ms) (\<lambda>m.
     bind_e (py_get m ''name'' (JStr ''N/A'')) (\<lambda>_.
     bind_e (py_get offer ''merchants'' (JArr [JObj []])) (\<lambda>ms'.
     bind_e (py_first ms') (\<lambda>m'.
     bind_e (py_get m' ''category'' (JStr ''N/A'')) (\<lambda>_.
     bind_e (py_get offer ''duration'' (JObj [])) (\<lambda>d.
     bind_e (py_get d ''to'' (JStr ''N/A'')) (\<lambda>_.
     bind_e (py_get offer ''budget'' (JStr ''N/A'')) (\<lambda>_.
       Inr ())))))))))))"

text \<open>
  The condition of the comprehension on line 102:
  \<^verbatim>\<open>offer.get('id') in result.get('matching_ids', [])\<close>.
\<close>

definition offer_id :: "json \<Rightarrow> error + json" where
  "offer_id offer = py_get offer ''id'' JNull"

definition id_matches :: "json \<Rightarrow> json \<Rightarrow> error + bool" where
  "id_matches result offer =
     bind_e (offer_id offer) (\<lambda>i.
     bind_e (py_get result ''matching_ids'' (JArr [])) (\<lambda>ids.
       py_in i ids))"

text \<open>
  \<open>filter_offers_with_llm loads llm prompt offers\<close>. \<open>llm prompt xs\<close> is the chat
  completion requested for \<open>prompt\<close> and the summaries of \<open>xs\<close>, up to reading
  \<^verbatim>\<open>response.choices[0].message.content\<close>: the text, or the exception raised on the way
  (an answer without text raises at the next statement, inside the same \<^verbatim>\<open>try\<close>).
  \<open>loads\<close> is \<^verbatim>\<open>json.loads\<close>. The result is the returned value and the messages shown.
\<close>

definition filter_offers_with_llm ::
  "(string \<Rightarrow> error + json) \<Rightarrow> (string \<Rightarrow> json list \<Rightarrow> error + string) \<Rightarrow>
   string \<Rightarrow> json \<Rightarrow> json \<times> message list" where
  "filter_offers_with_llm loads llm prompt offers =
     (case
        bind_e (py_iter offers) (\<lambda>xs.
        bind_e (map_e offer_summary xs) (\<lambda>_.
        bind_e (llm prompt xs) (\<lambda>content.
        bind_e (loads content) (\<lambda>result.
        bind_e (py_iter offers) (\<lambda>ys.
        bind_e (filter_e (id_matches result) ys) (\<lambda>kept.
          Inr (JArr kept)))))))
      of
        Inl e \<Rightarrow> (offers, [StError ''LLM filtering error: '' e])
      | Inr r \<Rightarrow> (r, []))"

text \<open>
  \<^verbatim>\<open>json.loads\<close> is the library's decoder and stays a parameter. To run a handler on a
  concrete answer, \<open>loads_table\<close> is the decoder on the documents listed (each with the
  value it decodes to) and rejects every other text.
\<close>

definition loads_table :: "(string \<times> json) list \<Rightarrow> string \<Rightarrow> error + json" where
  "loads_table tbl s = (case map_of tbl s of Some v \<Rightarrow> Inr v | None \<Rightarrow> Inl JSONDecodeError)"

section \<open>Action handlers\<close>

text \<open>\<^verbatim>\<open>v.copy()\<close>: lists and dicts have the method.\<close>

fun py_copy :: "json \<Rightarrow> error + json" where
  "py_copy (JObj kvs) = Inr (JObj kvs)"
| "py_copy (JArr xs) = Inr (JArr xs)"
| "py_copy _ = Inl AttributeError"

text \<open>
  "Generate Offer" (lines 185 to 217). \<open>llm user_prompt\<close> is the completion's text or the
  exception raised while getting it. The three assignments follow one another inside
  the \<^verbatim>\<open>try\<close>, so an exception in \<^verbatim>\<open>copy\<close> leaves the first one done. The closing
  \<^verbatim>\<open>st.rerun()\<close> restarts the script with the state as it is.
\<close>

definition generate_offer ::
  "(string \<Rightarrow> error + json) \<Rightarrow> (string \<Rightarrow> error + string) \<Rightarrow>
   string \<Rightarrow> session_state \<Rightarrow> session_state \<times> message list" where
  "generate_offer loads llm user_prompt st =
     (case bind_e (llm user_prompt) (\<lambda>content. loads (sub_fence content)) of
        Inl e \<Rightarrow> (st, [StError ''Error generating offer: '' e])
      | Inr params \<Rightarrow>
          (case py_copy params of
             Inl e \<Rightarrow> (st\<lparr>offer_params := params\<rparr>, [StError ''Error generating offer: '' e])
           | Inr c \<Rightarrow>
               (st\<lparr>offer_params := params, adjusted_params := c, offer_created := True\<rparr>, [])))"

text \<open>"Search Offers" (lines 256 to 264).\<close>

definition search_offers ::
  "(string \<Rightarrow> error + json) \<Rightarrow> (string \<Rightarrow> json list \<Rightarrow> error + string) \<Rightarrow>
   string \<Rightarrow> session_state \<Rightarrow> session_state \<times> message list" where
  "search_offers loads llm search_query st =
     (if truthy (pending_offers st) \<and> search_query \<noteq> [] then
        (case filter_offers_with_llm loads llm search_query (pending_offers st) of
           (r, msgs) \<Rightarrow> (st\<lparr>filtered_offers := r\<rparr>, msgs))
      else if \<not> truthy (pending_offers st) then
        (st, [StWarning ''No offers loaded. Refresh first.''])
      else (st, []))"

text \<open>"Refresh All Offers" (lines 268 to 272).\<close>

definition refresh_offers ::
  "(string \<Rightarrow> string \<Rightarrow> string \<Rightarrow> error + http_response) \<Rightarrow>
   (json \<Rightarrow> json \<Rightarrow> error + http_response) \<Rightarrow>
   session_state \<Rightarrow> session_state \<times> message list" where
  "refresh_offers post get st =
     (case fetch_pending_offers post get st of
        (st', msgs, _) \<Rightarrow> (st'\<lparr>filtered_offers := JNull\<rparr>, msgs))"

text \<open>
  "Expiring Soon" (lines 275 to 280). The condition of the comprehension is
  \<^verbatim>\<open>o.get('duration', {}).get('to') and (strptime(o['duration']['to'], fmt) - now()).days <= 7\<close>.
  The clock is read anew for each offer whose expiry has been parsed: \<open>now i\<close> is the
  reading of \<^verbatim>\<open>datetime.now()\<close> taken while the offer at position \<open>i\<close> is tested. No
  \<^verbatim>\<open>try\<close> surrounds the comprehension, and the assignment happens only when it has
  finished.
\<close>

definition expires_within_week :: "datetime \<Rightarrow> json \<Rightarrow> error + bool" where
  "expires_within_week now offer =
     bind_e (py_get offer ''duration'' (JObj [])) (\<lambda>d.
     bind_e (py_get d ''to'' JNull) (\<lambda>t.
       if \<not> truthy t then Inr False
       else
         bind_e (py_item offer ''duration'') (\<lambda>d'.
         bind_e (py_item d' ''to'') (\<lambda>t'.
         bind_e (py_strptime t') (\<lambda>expiry.
           Inr (timedelta_days expiry now \<le> 7))))))"

definition expiring_soon :: "(nat \<Rightarrow> datetime) \<Rightarrow> session_state \<Rightarrow> error + session_state" where
  "expiring_soon now st =
     bind_e (py_iter (pending_offers st)) (\<lambda>xs.
     bind_e (filter_e (\<lambda>(i, offer). expires_within_week (now i) offer) (enumerate 0 xs)) (\<lambda>kept.
       Inr (st\<lparr>filtered_offers := JArr (map snd kept)\<rparr>)))"

text \<open>
  "High Value (>$50)" (lines 282 to 286). The test \<^verbatim>\<open>float(b) > 50\<close> on a budget is
  floating-point arithmetic and stays a parameter, \<open>above_50\<close>.
\<close>

definition high_value :: "(json \<Rightarrow> error + bool) \<Rightarrow> session_state \<Rightarrow> error + session_state" where
  "high_value above_50 st =
     bind_e (py_iter (pending_offers st)) (\<lambda>xs.
     bind_e (filter_e (\<lambda>offer. bind_e (py_get offer ''budget'' (JInt 0)) above_50) xs) (\<lambda>kept.
       Inr (st\<lparr>filtered_offers := JArr kept\<rparr>)))"

section \<open>The offer view\<close>

text \<open>Line 289: \<^verbatim>\<open>filtered_offers or pending_offers\<close>.\<close>

definition offers_to_display :: "session_state \<Rightarrow> json" where
  "offers_to_display st = py_or (filtered_offers st) (pending_offers st)"

text \<open>
  The sort key of lines 295 to 298, as written:
  \<^verbatim>\<open>(strptime(to), "%Y-%m-%d %H:%M") if x.get('duration', {}).get('to') else '9999-12-31'\<close>.
  The format is the second component of a pair and not the second argument of
  \<^verbatim>\<open>strptime\<close>, which needs two: the call raises \<^verbatim>\<open>TypeError\<close> once its one argument has
  been evaluated.
\<close>

definition expiry_key :: "json \<Rightarrow> error + string" where
  "expiry_key x =
     bind_e (py_get x ''duration'' (JObj [])) (\<lambda>d.
     bind_e (py_get d ''to'' JNull) (\<lambda>t.
       if truthy t then
         bind_e (py_get x ''duration'' (JObj [])) (\<lambda>d'.
         bind_e (py_get d' ''to'' (JStr ''9999-12-31'')) (\<lambda>_.
           Inl TypeError))
       else Inr ''9999-12-31''))"

text \<open>
  \<^verbatim>\<open>offers_to_display.sort(key=...)\<close>: only a list has the method; the keys of all
  elements are computed first, then the list is sorted by them, stably.
\<close>

definition display_sort :: "json \<Rightarrow> error + json" where
  "display_sort v =
     (case v of
        JArr xs \<Rightarrow>
          bind_e (map_e expiry_key xs) (\<lambda>ks.
            Inr (JArr (map snd (sort_key fst (zip ks xs)))))
      | _ \<Rightarrow> Inl AttributeError)"

text \<open>
  The days left that an offer card shows (lines 118 to 122): here the expiry is parsed
  only when it is there and is not the text \<^verbatim>\<open>No end date\<close>.
\<close>

definition days_left :: "datetime \<Rightarrow> json \<Rightarrow> error + int option" where
  "days_left now offer =
     bind_e (py_get offer ''duration'' (JObj [])) (\<lambda>d.
     bind_e (py_get d ''to'' JNull) (\<lambda>expiry_date.
       if truthy expiry_date \<and> \<not> py_eq expiry_date (JStr ''No end date'') then
         bind_e (py_strptime expiry_date) (\<lambda>expiry.
           Inr (Some (max 0 (timedelta_days expiry now))))
       else Inr None))"

section \<open>Basic facts\<close>

lemma bind_e_Inl [simp]: "bind_e (Inl e) f = Inl e"
  by (simp add: bind_e_def)

lemma bind_e_Inr [simp]: "bind_e (Inr x) f = f x"
  by (simp add: bind_e_def)

lemma filter_e_is_filter:
  "filter_e p xs = Inr ys \<Longrightarrow> ys = filter (\<lambda>x. p x = Inr True) xs"
proof (induction xs arbitrary: ys)
  case Nil
  then show ?case by simp
next
  case (Cons x xs)
  then show ?case
    by (auto split: sum.splits if_splits)
qed

lemma filter_e_subseq: "filter_e p xs = Inr ys \<Longrightarrow> subseq ys xs"
  by (drule filter_e_is_filter) simp

section \<open>The fence strip\<close>

lemma match_fence_None: "\<not> prefix fence_json s \<Longrightarrow> match_fence s = None"
  by (simp add: match_fence_def)

lemma sub_fence_unlabelled: "\<not> sublist fence_json s \<Longrightarrow> sub_fence s = s"
proof (induction s)
  case Nil
  then show ?case by simp
next
  case (Cons c cs)
  from Cons.prems have "\<not> prefix fence_json (c # cs)" and "\<not> sublist fence_json cs"
    by (auto simp: sublist_Cons_right)
  with Cons.IH show ?case by (simp add: match_fence_None)
qed

lemma fence_in_fence_json: "sublist fence fence_json"
  unfolding fence_def fence_json_def by code_simp

lemma no_fence_no_label: "\<not> sublist fence s \<Longrightarrow> \<not> sublist fence_json s"
  using fence_in_fence_json sublist_order.order_trans by blast

text \<open>
  No match can begin inside a text that does not contain \<^verbatim>\<open>```json\<close>, also when that text
  is followed by a labelled fence: the label has no proper prefix that is also its suffix.
\<close>

lemma no_straddle:
  assumes "\<not> sublist fence_json (c # cs)"
  shows "\<not> prefix fence_json (c # cs @ fence_json @ r)"
proof
  assume "prefix fence_json (c # cs @ fence_json @ r)"
  then have "prefix fence_json ((c # cs) @ fence_json @ r)" by simp
  then consider "prefix fence_json (c # cs)"
    | us where "fence_json = (c # cs) @ us" "prefix us (fence_json @ r)"
    unfolding prefix_append by blast
  then show False
  proof cases
    case 1
    then show ?thesis using assms by auto
  next
    case 2
    from 2(1) have "us \<in> set [''``json'', ''`json'', ''json'', ''son'', ''on'', ''n'', []]"
      by (auto simp: fence_json_def Cons_eq_append_conv)
    moreover have "us \<noteq> []"
    proof
      assume "us = []"
      with 2(1) have "prefix fence_json (c # cs)" by simp
      then show False using assms by auto
    qed
    ultimately show ?thesis using 2(2)
      by (auto simp: fence_json_def)
  qed
qed

lemma sub_fence_before_label:
  "\<not> sublist fence_json pre \<Longrightarrow>
     sub_fence (pre @ fence_json @ r) = pre @ sub_fence (fence_json @ r)"
proof (induction pre)
  case Nil
  then show ?case by simp
next
  case (Cons c cs)
  have "\<not> prefix fence_json (c # cs @ fence_json @ r)"
    using Cons.prems by (rule no_straddle)
  moreover have "\<not> sublist fence_json cs"
    using Cons.prems by (auto simp: sublist_Cons_right)
  ultimately show ?case using Cons.IH by (simp add: match_fence_None)
qed

text \<open>
  The closing part of the pattern finds the fence that ends a content without \<^verbatim>\<open>```\<close>, and
  takes the newline before it out of the group.
\<close>

lemma find_close_content:
  assumes "\<not> sublist fence body"
    and "n2 = [] \<or> n2 = newline"
    and "n2 = [] \<Longrightarrow> \<not> suffix newline body"
    and "n2 = [] \<Longrightarrow> \<not> suffix [backtick] body"
  shows "find_close (body @ n2 @ fence @ post) = Some (body, post)"
  using assms
proof (induction body)
  case Nil
  then show ?case
    by (auto simp: fence_def newline_def)
next
  case (Cons c cs)
  have cs: "\<not> sublist fence cs"
    using Cons.prems(1) by (auto simp: sublist_Cons_right)
  have suf1: "n2 = [] \<Longrightarrow> \<not> suffix newline cs"
    using Cons.prems(3) by (auto simp: suffix_Cons)
  have suf2: "n2 = [] \<Longrightarrow> \<not> suffix [backtick] cs"
    using Cons.prems(4) by (auto simp: suffix_Cons)
  have IH: "find_close (cs @ n2 @ fence @ post) = Some (cs, post)"
    using Cons.IH [OF cs Cons.prems(2) suf1 suf2] .
  have no2: "\<not> prefix fence (c # cs @ n2 @ fence @ post)"
  proof
    assume "prefix fence (c # cs @ n2 @ fence @ post)"
    then have "prefix fence ((c # cs) @ n2 @ fence @ post)" by simp
    then consider "prefix fence (c # cs)"
      | us where "fence = (c # cs) @ us" "us \<noteq> []" "prefix us (n2 @ fence @ post)"
      unfolding prefix_append by (metis append_Nil2 prefix_order.order_refl)
    then show False
    proof cases
      case 1
      then show ?thesis using Cons.prems(1) by auto
    next
      case 2
      from 2(1,2) have b: "c # cs = [backtick] \<or> c # cs = [backtick, backtick]"
        by (auto simp: fence_def backtick_def Cons_eq_append_conv)
      show ?thesis
      proof (cases "n2 = []")
        case True
        with Cons.prems(4) b show ?thesis by (auto simp: suffix_def)
      next
        case False
        with Cons.prems(2) have "n2 = newline" by simp
        with 2 b show ?thesis
          by (auto simp: fence_def newline_def backtick_def)
      qed
    qed
  qed
  have no1: "\<not> prefix (newline @ fence) (c # cs @ n2 @ fence @ post)"
  proof
    assume "prefix (newline @ fence) (c # cs @ n2 @ fence @ post)"
    then have c: "c = CHR 0x0A" and p: "prefix fence (cs @ n2 @ fence @ post)"
      by (auto simp: newline_def)
    show False
    proof (cases cs)
      case Nil
      show ?thesis
      proof (cases "n2 = []")
        case True
        with Cons.prems(3) Nil c show ?thesis by (simp add: newline_def)
      next
        case False
        with Cons.prems(2) have "n2 = newline" by simp
        with p Nil show ?thesis by (simp add: newline_def fence_def)
      qed
    next
      case (Cons d ds)
      from p consider "prefix fence cs"
        | us where "fence = cs @ us" "us \<noteq> []" "prefix us (n2 @ fence @ post)"
        unfolding prefix_append by (metis append_Nil2 prefix_order.order_refl)
      then show ?thesis
      proof cases
        case 1
        then show ?thesis using cs by auto
      next
        case 2
        from 2(1,2) Cons have b: "cs = [backtick] \<or> cs = [backtick, backtick]"
          by (auto simp: fence_def backtick_def Cons_eq_append_conv)
        show ?thesis
        proof (cases "n2 = []")
          case True
          with suf2 b show ?thesis by (auto simp: suffix_def)
        next
          case False
          with \<open>n2 = [] \<or> n2 = newline\<close> have "n2 = newline" by simp
          with 2 b show ?thesis
            by (auto simp: fence_def newline_def backtick_def)
        qed
      qed
    qed
  qed
  show ?case using no1 no2 IH by simp
qed

lemma match_fence_labelled:
  assumes "\<not> sublist fence body"
    and "n1 = [] \<or> n1 = newline"
    and "n2 = [] \<or> n2 = newline"
    and "n1 = [] \<Longrightarrow> \<not> prefix newline body"
    and "n2 = [] \<Longrightarrow> \<not> suffix newline body"
    and "n2 = [] \<Longrightarrow> \<not> suffix [backtick] body"
  shows "match_fence (fence_json @ n1 @ body @ n2 @ fence @ post) = Some (body, post)"
proof -
  have fc: "find_close (body @ n2 @ fence @ post) = Some (body, post)"
    using find_close_content [OF assms(1,3,5,6)] .
  have pre: "prefix fence_json (fence_json @ n1 @ body @ n2 @ fence @ post)" by simp
  have len: "length fence_json = 7" by (simp add: fence_json_def)
  have d7: "drop 7 (fence_json @ n1 @ body @ n2 @ fence @ post) = n1 @ body @ n2 @ fence @ post"
    using len by simp
  show ?thesis
  proof (cases "n1 = []")
    case False
    with assms(2) have n1: "n1 = newline" by simp
    have d8: "drop 8 (fence_json @ n1 @ body @ n2 @ fence @ post) = body @ n2 @ fence @ post"
      using len n1 by (simp add: newline_def)
    show ?thesis
      unfolding match_fence_def using pre d7 d8 fc n1 by (simp add: newline_def)
  next
    case True
    show ?thesis
    proof (cases body)
      case (Cons c cs)
      with assms(4) True have "c \<noteq> CHR 0x0A" by (auto simp: newline_def)
      then have "\<not> prefix newline (n1 @ body @ n2 @ fence @ post)"
        using True Cons by (simp add: newline_def)
      then show ?thesis
        unfolding match_fence_def using pre d7 fc True by simp
    next
      case Nil
      show ?thesis
      proof (cases "n2 = []")
        case True
        have "\<not> prefix newline (n1 @ body @ n2 @ fence @ post)"
          using True Nil \<open>n1 = []\<close> by (simp add: newline_def fence_def)
        then show ?thesis
          unfolding match_fence_def using pre d7 fc \<open>n1 = []\<close> by simp
      next
        case False
        with assms(3) have n2: "n2 = newline" by simp
        have d8: "drop 8 (fence_json @ n1 @ body @ n2 @ fence @ post) = fence @ post"
          using len n2 Nil \<open>n1 = []\<close> by (simp add: newline_def)
        have "find_close (fence @ post) = Some ([], post)"
          by (simp add: fence_def newline_def)
        then show ?thesis
          unfolding match_fence_def using pre d7 d8 n2 Nil \<open>n1 = []\<close>
          by (simp add: newline_def)
      qed
    qed
  qed
qed

lemma sub_fence_at_match:
  "match_fence s = Some (b, t) \<Longrightarrow> sub_fence s = b @ sub_fence t"
  by (cases s) (auto simp: match_fence_def fence_json_def)

lemma sub_fence_labelled:
  assumes "\<not> sublist fence_json pre" "\<not> sublist fence body"
    and "n1 = [] \<or> n1 = newline"
    and "n2 = [] \<or> n2 = newline"
    and "n1 = [] \<Longrightarrow> \<not> prefix newline body"
    and "n2 = [] \<Longrightarrow> \<not> suffix newline body"
    and "n2 = [] \<Longrightarrow> \<not> suffix [backtick] body"
  shows "sub_fence (pre @ fence_json @ n1 @ body @ n2 @ fence @ post)
         = pre @ body @ sub_fence post"
proof -
  have "sub_fence (pre @ fence_json @ n1 @ body @ n2 @ fence @ post)
        = pre @ sub_fence (fence_json @ n1 @ body @ n2 @ fence @ post)"
    using assms(1) by (rule sub_fence_before_label)
  also have "sub_fence (fence_json @ n1 @ body @ n2 @ fence @ post) = body @ sub_fence post"
    using match_fence_labelled [OF assms(2-7)] by (rule sub_fence_at_match)
  finally show ?thesis .
qed

text \<open>
  Claim C3, as the code has it. The strip knows the labelled fence only. Take a text
  that is \<open>pre\<close>, \<^verbatim>\<open>```json\<close>, an optional newline, \<open>body\<close>, an optional newline, \<^verbatim>\<open>```\<close>, \<open>post\<close>,
  where \<^verbatim>\<open>```json\<close> does not occur in \<open>pre\<close> and \<^verbatim>\<open>```\<close> does not occur in \<open>body\<close> (single
  backticks may), a newline of \<open>body\<close> next to a fence marker is counted as the optional
  one, and \<open>body\<close> does not end in a backtick directly before the closing marker. The
  result is \<open>pre\<close>, then \<open>body\<close>, then the strip of \<open>post\<close>: the two markers and their
  optional newlines are gone, the inner content is verbatim, and the scan goes on behind
  the fence; when \<^verbatim>\<open>```json\<close> does not occur in \<open>post\<close> either, the result is \<open>pre\<close>, \<open>body\<close>,
  \<open>post\<close>. A text in which \<^verbatim>\<open>```json\<close> does not occur, a fence without the label included,
  is returned as it is.
\<close>

theorem strip_removes_labelled_fence_only:
  assumes "\<not> sublist fence_json pre" "\<not> sublist fence body"
    and "n1 = [] \<or> n1 = newline"
    and "n2 = [] \<or> n2 = newline"
    and "n1 = [] \<Longrightarrow> \<not> prefix newline body"
    and "n2 = [] \<Longrightarrow> \<not> suffix newline body"
    and "n2 = [] \<Longrightarrow> \<not> suffix [backtick] body"
  shows "sub_fence (pre @ fence_json @ n1 @ body @ n2 @ fence @ post)
           = pre @ body @ sub_fence post
    \<and> (\<not> sublist fence_json post \<longrightarrow>
         sub_fence (pre @ fence_json @ n1 @ body @ n2 @ fence @ post) = pre @ body @ post)
    \<and> (\<not> sublist fence_json s \<longrightarrow> sub_fence s = s)"
  using sub_fence_labelled [OF assms] sub_fence_unlabelled [of s] sub_fence_unlabelled [of post]
  by simp

theorem strip_removes_labelled_fence_only_witness:
  "\<not> sublist fence_json ''Use `id`: '' \<and> \<not> sublist fence ''{d: `x`}''
   \<and> \<not> sublist fence_json '' (end)''
   \<and> \<not> sublist fence_json (fence @ newline @ ''{}'' @ newline @ fence)
   \<and> sub_fence (''Use `id`: '' @ fence_json @ newline @ ''{d: `x`}'' @ newline @ fence
        @ '' (end)'')
       = ''Use `id`: '' @ ''{d: `x`}'' @ '' (end)''
   \<and> sub_fence (fence @ newline @ ''{}'' @ newline @ fence)
       = fence @ newline @ ''{}'' @ newline @ fence"
proof -
  have b1: "\<not> sublist fence_json ''Use `id`: ''"
    unfolding fence_json_def by code_simp
  have b2: "\<not> sublist fence ''{d: `x`}''"
    unfolding fence_def by code_simp
  have b3: "\<not> sublist fence_json '' (end)''"
    unfolding fence_json_def by code_simp
  have n: "newline = [] \<or> newline = newline" by simp
  have p: "newline = [] \<Longrightarrow> \<not> prefix newline ''{d: `x`}''" by (simp add: newline_def)
  have q: "newline = [] \<Longrightarrow> \<not> suffix newline ''{d: `x`}''" by (simp add: newline_def)
  have r: "newline = [] \<Longrightarrow> \<not> suffix [backtick] ''{d: `x`}''" by (simp add: newline_def)
  have u: "\<not> sublist fence_json (fence @ newline @ ''{}'' @ newline @ fence)"
    unfolding fence_def fence_json_def newline_def by code_simp
  note t = strip_removes_labelled_fence_only
      [OF b1 b2 n n p q r, where s = "fence @ newline @ ''{}'' @ newline @ fence"
         and post = "'' (end)''"]
  from t b3 have e1:
    "sub_fence (''Use `id`: '' @ fence_json @ newline @ ''{d: `x`}'' @ newline @ fence
        @ '' (end)'') = ''Use `id`: '' @ ''{d: `x`}'' @ '' (end)''"
    by blast
  from t u have e2:
    "sub_fence (fence @ newline @ ''{}'' @ newline @ fence)
       = fence @ newline @ ''{}'' @ newline @ fence"
    by blast
  show ?thesis using b1 b2 b3 u e1 e2 by blast
qed

text \<open>
  Against claim C3 as stated: a JSON object inside a fence without the label comes back
  with both fence markers still in place.
\<close>

theorem strip_unlabelled_fence_counterexample:
  "sub_fence (''```'' @ newline @ ''{}'' @ newline @ ''```'')
     = ''```'' @ newline @ ''{}'' @ newline @ ''```''
   \<and> sub_fence (''```'' @ newline @ ''{}'' @ newline @ ''```'') \<noteq> ''{}''"
  by (simp add: match_fence_def fence_json_def newline_def)

text \<open>
  Claim C9: a string that carries no fence markup, that is, in which \<^verbatim>\<open>```\<close> does not
  occur, is returned unchanged by the strip.
\<close>

theorem strip_unfenced_unchanged:
  "\<not> sublist fence s \<Longrightarrow> sub_fence s = s"
  by (rule sub_fence_unlabelled) (rule no_fence_no_label)

theorem strip_unfenced_unchanged_witness:
  \<open>\<not> sublist fence ''{"offer_type": "cashback", "value": 20}''
   \<and> sub_fence ''{"offer_type": "cashback", "value": 20}''
       = ''{"offer_type": "cashback", "value": 20}''\<close>
proof -
  have h: \<open>\<not> sublist fence ''{"offer_type": "cashback", "value": 20}''\<close>
    unfolding fence_def by code_simp
  show ?thesis
    using h strip_unfenced_unchanged [OF h] by simp
qed

section \<open>The filter engine\<close>

text \<open>
  On a list of offers the filter has two outcomes: the except branch, which returns the
  list it was given and shows one error, or the comprehension's result with no message.
\<close>

lemma filter_offers_cases:
  "(\<exists>e. filter_offers_with_llm loads llm prompt (JArr xs)
          = (JArr xs, [StError ''LLM filtering error: '' e]))
   \<or> (\<exists>c result kept. llm prompt xs = Inr c \<and> loads c = Inr result
        \<and> filter_e (id_matches result) xs = Inr kept
        \<and> filter_offers_with_llm loads llm prompt (JArr xs) = (JArr kept, []))"
  unfolding filter_offers_with_llm_def
  by (cases "map_e offer_summary xs"; cases "llm prompt xs"; simp;
      cases "loads (projr (llm prompt xs))"; simp;
      cases "filter_e (id_matches (projr (loads (projr (llm prompt xs))))) xs"; simp)

lemma summary_needs_dict: "offer_summary x = Inr u \<Longrightarrow> \<exists>kvs. x = JObj kvs"
  by (cases x) (simp_all add: offer_summary_def)

lemma summaries_need_dicts:
  "map_e offer_summary xs = Inr us \<Longrightarrow> \<forall>x \<in> set xs. \<exists>kvs. x = JObj kvs"
proof (induction xs arbitrary: us)
  case Nil
  then show ?case by simp
next
  case (Cons x xs)
  then show ?case
    by (auto split: sum.splits dest: summary_needs_dict)
qed

lemma no_ids_selects_nothing:
  assumes "map_of kvs ''matching_ids'' = None"
    and "\<forall>x \<in> set xs. \<exists>ovs. x = JObj ovs"
  shows "filter_e (id_matches (JObj kvs)) xs = Inr []"
  using assms(2)
proof (induction xs)
  case Nil
  then show ?case by simp
next
  case (Cons x xs)
  then obtain ovs where "x = JObj ovs" by auto
  then have "id_matches (JObj kvs) x = Inr False"
    using assms(1) by (simp add: id_matches_def offer_id_def)
  with Cons show ?case by simp
qed

text \<open>
  Claim C1, as the code has it. When the completion raises, or its text does not decode,
  the filter returns the offer list it was given and shows an error; and whatever the
  input, a run that shows an error returns its input. A decoded object without the field
  \<^verbatim>\<open>matching_ids\<close> is no error: \<^verbatim>\<open>result.get('matching_ids', [])\<close> reads it as the empty
  list, so (for offers whose summaries can be built) nothing is selected and no message is
  shown.
\<close>

theorem filter_fails_open:
  "(llm prompt xs = Inl e \<longrightarrow>
      (\<exists>e'. filter_offers_with_llm loads llm prompt (JArr xs)
             = (JArr xs, [StError ''LLM filtering error: '' e'])))
   \<and> (llm prompt xs = Inr c \<and> loads c = Inl e \<longrightarrow>
      (\<exists>e'. filter_offers_with_llm loads llm prompt (JArr xs)
             = (JArr xs, [StError ''LLM filtering error: '' e'])))
   \<and> (snd (filter_offers_with_llm loads llm prompt offers) \<noteq> [] \<longrightarrow>
        fst (filter_offers_with_llm loads llm prompt offers) = offers)
   \<and> (map_e offer_summary xs = Inr us \<and> llm prompt xs = Inr c
        \<and> loads c = Inr (JObj kvs) \<and> map_of kvs ''matching_ids'' = None \<longrightarrow>
        filter_offers_with_llm loads llm prompt (JArr xs) = (JArr [], []))"
proof (intro conjI impI)
  assume "llm prompt xs = Inl e"
  then show "\<exists>e'. filter_offers_with_llm loads llm prompt (JArr xs)
             = (JArr xs, [StError ''LLM filtering error: '' e'])"
    using filter_offers_cases [of loads llm prompt xs] by auto
next
  assume "llm prompt xs = Inr c \<and> loads c = Inl e"
  then show "\<exists>e'. filter_offers_with_llm loads llm prompt (JArr xs)
             = (JArr xs, [StError ''LLM filtering error: '' e'])"
    using filter_offers_cases [of loads llm prompt xs] by auto
next
  assume "snd (filter_offers_with_llm loads llm prompt offers) \<noteq> []"
  then show "fst (filter_offers_with_llm loads llm prompt offers) = offers"
    unfolding filter_offers_with_llm_def by (auto split: sum.splits)
next
  assume h: "map_e offer_summary xs = Inr us \<and> llm prompt xs = Inr c
        \<and> loads c = Inr (JObj kvs) \<and> map_of kvs ''matching_ids'' = None"
  then have "filter_e (id_matches (JObj kvs)) xs = Inr []"
    using no_ids_selects_nothing summaries_need_dicts by blast
  with h show "filter_offers_with_llm loads llm prompt (JArr xs) = (JArr [], [])"
    by (simp add: filter_offers_with_llm_def)
qed

theorem filter_fails_open_witness:
  "filter_offers_with_llm (loads_table []) (\<lambda>p xs. Inl (ExternalError ''timed out'')) ''food''
       (JArr [JObj [(''id'', JInt 1)]])
     = (JArr [JObj [(''id'', JInt 1)]],
        [StError ''LLM filtering error: '' (ExternalError ''timed out'')])
   \<and> loads_table [] ''Sorry, no offers match.'' = Inl JSONDecodeError
   \<and> filter_offers_with_llm (loads_table []) (\<lambda>p xs. Inr ''Sorry, no offers match.'') ''food''
       (JArr [JObj [(''id'', JInt 1)]])
     = (JArr [JObj [(''id'', JInt 1)]], [StError ''LLM filtering error: '' JSONDecodeError])
   \<and> map_e offer_summary [JObj [(''id'', JInt 1)]] = Inr [()]
   \<and> filter_offers_with_llm (loads_table [(''{}'', JObj [])]) (\<lambda>p xs. Inr ''{}'') ''food''
       (JArr [JObj [(''id'', JInt 1)]])
     = (JArr [], [])"
  using
    filter_fails_open [where llm = "\<lambda>p xs. Inl (ExternalError ''timed out'')"
      and loads = "loads_table []" and prompt = "''food''" and xs = "[JObj [(''id'', JInt 1)]]"
      and e = "ExternalError ''timed out''"]
    filter_fails_open [where llm = "\<lambda>p xs. Inr ''Sorry, no offers match.''"
      and loads = "loads_table []" and prompt = "''food''" and xs = "[JObj [(''id'', JInt 1)]]"
      and c = "''Sorry, no offers match.''" and e = JSONDecodeError]
    filter_fails_open [where llm = "\<lambda>p xs. Inr ''{}''"
      and loads = "loads_table [(''{}'', JObj [])]" and prompt = "''food''"
      and xs = "[JObj [(''id'', JInt 1)]]" and c = "''{}''" and kvs = "[]" and us = "[()]"]
  by (simp add: filter_offers_with_llm_def loads_table_def offer_summary_def)

text \<open>
  Against claim C1 as stated: the model answers \<^verbatim>\<open>{}\<close>, an object in which the field
  \<^verbatim>\<open>matching_ids\<close> is missing. The filter returns the empty list, not the one offer it was
  given, and shows no error.
\<close>

theorem filter_missing_field_counterexample:
  "filter_offers_with_llm (loads_table [(''{}'', JObj [])]) (\<lambda>p xs. Inr ''{}'') ''food''
       (JArr [JObj [(''id'', JInt 1)]])
     = (JArr [], [])
   \<and> fst (filter_offers_with_llm (loads_table [(''{}'', JObj [])]) (\<lambda>p xs. Inr ''{}'') ''food''
       (JArr [JObj [(''id'', JInt 1)]])) \<noteq> JArr [JObj [(''id'', JInt 1)]]"
  by (simp add: filter_offers_with_llm_def loads_table_def offer_summary_def id_matches_def
      offer_id_def)

text \<open>
  Claim C2: for every list of offers, every query and every behaviour of the language
  model and of the decoder, the filter returns a list that is a subsequence of the input
  (the offers kept are in their original relative order), and the id of every returned
  offer is the id of an input offer.
\<close>

theorem filter_output_subseq:
  "\<exists>ys. fst (filter_offers_with_llm loads llm prompt (JArr xs)) = JArr ys
        \<and> subseq ys xs
        \<and> set (map offer_id ys) \<subseteq> set (map offer_id xs)"
proof -
  from filter_offers_cases [of loads llm prompt xs]
  obtain ys where r: "fst (filter_offers_with_llm loads llm prompt (JArr xs)) = JArr ys"
    and s: "subseq ys xs"
    by (auto dest: filter_e_subseq)
  from s have "set ys \<subseteq> set xs" by (auto dest: list_emb_set)
  then have "set (map offer_id ys) \<subseteq> set (map offer_id xs)" by auto
  with r s show ?thesis by blast
qed

theorem filter_output_subseq_witness:
  \<open>fst (filter_offers_with_llm
          (loads_table [(''{"matching_ids": [3, 1]}'',
                         JObj [(''matching_ids'', JArr [JInt 3, JInt 1])])])
          (\<lambda>p xs. Inr ''{"matching_ids": [3, 1]}'') ''food''
          (JArr [JObj [(''id'', JInt 1)], JObj [(''id'', JInt 2)], JObj [(''id'', JInt 3)]]))
     = JArr [JObj [(''id'', JInt 1)], JObj [(''id'', JInt 3)]]
   \<and> subseq [JObj [(''id'', JInt 1)], JObj [(''id'', JInt 3)]]
        [JObj [(''id'', JInt 1)], JObj [(''id'', JInt 2)], JObj [(''id'', JInt 3)]]\<close>
  using filter_output_subseq
    [where loads = \<open>loads_table [(''{"matching_ids": [3, 1]}'',
                         JObj [(''matching_ids'', JArr [JInt 3, JInt 1])])]\<close>
       and llm = \<open>\<lambda>p xs. Inr ''{"matching_ids": [3, 1]}''\<close> and prompt = "''food''"
       and xs = "[JObj [(''id'', JInt 1)], JObj [(''id'', JInt 2)], JObj [(''id'', JInt 3)]]"]
  by (simp add: filter_offers_with_llm_def loads_table_def offer_summary_def id_matches_def
      offer_id_def)

section \<open>The marketplace fetch\<close>

lemma authenticate_user_tokens:
  "authenticate_user post em pw ap = Inr auth \<Longrightarrow>
     \<exists>p a. auth = JObj [(''permissionToken'', p), (''authToken'', a)]"
  unfolding authenticate_user_def
  by (auto simp: bind_e_def split: sum.splits if_splits)

text \<open>
  Claim C6. The authenticate step is \<open>authenticate_user\<close>, whose success is always a pair
  of tokens (\<open>authenticate_user_tokens\<close>); the fetch step is \<open>get_pending_offers\<close> followed
  by reading the field \<^verbatim>\<open>offers\<close> of its result, with the empty list for a missing
  field. For every state, and so for every credentials value: when the authenticate step
  fails, or the fetch step fails at the request or at the reading, the state is unchanged
  (the held collection with it), one error message is shown and \<^verbatim>\<open>None\<close> is returned; when
  both steps succeed, the held collection is replaced by the fetched offers and nothing
  else changes.
\<close>

theorem fetch_keeps_or_replaces:
  "(authenticate_user post (email (lms_credentials st)) (password (lms_credentials st))
        (app (lms_credentials st)) = Inl e \<longrightarrow>
      fetch_pending_offers post get st = (st, [StError ''Failed to fetch offers: '' e], JNull))
   \<and> (authenticate_user post (email (lms_credentials st)) (password (lms_credentials st))
        (app (lms_credentials st)) = Inr (JObj [(''permissionToken'', p), (''authToken'', a)])
      \<and> get_pending_offers get p a = Inl e \<longrightarrow>
      fetch_pending_offers post get st = (st, [StError ''Failed to fetch offers: '' e], JNull))
   \<and> (authenticate_user post (email (lms_credentials st)) (password (lms_credentials st))
        (app (lms_credentials st)) = Inr (JObj [(''permissionToken'', p), (''authToken'', a)])
      \<and> get_pending_offers get p a = Inr body \<and> py_get body ''offers'' (JArr []) = Inl e \<longrightarrow>
      fetch_pending_offers post get st = (st, [StError ''Failed to fetch offers: '' e], JNull))
   \<and> (authenticate_user post (email (lms_credentials st)) (password (lms_credentials st))
        (app (lms_credentials st)) = Inr (JObj [(''permissionToken'', p), (''authToken'', a)])
      \<and> get_pending_offers get p a = Inr body \<and> py_get body ''offers'' (JArr []) = Inr v \<longrightarrow>
      fetch_pending_offers post get st = (st\<lparr>pending_offers := v\<rparr>, [], body))"
  by (simp add: fetch_pending_offers_def)

theorem fetch_keeps_or_replaces_witness:
  "fetch_pending_offers
       (\<lambda>em pw ap. Inr \<lparr>status_code = 401, json_body = Inl JSONDecodeError\<rparr>)
       (\<lambda>p a. Inl (ExternalError ''unreachable''))
       ((initial_state ''u'' ''pw'')\<lparr>pending_offers := JArr [JObj [(''id'', JInt 7)]]\<rparr>)
     = ((initial_state ''u'' ''pw'')\<lparr>pending_offers := JArr [JObj [(''id'', JInt 7)]]\<rparr>,
        [StError ''Failed to fetch offers: '' (Exception ''Authentication failed'')], JNull)
   \<and> fetch_pending_offers
       (\<lambda>em pw ap. Inr \<lparr>status_code = 200,
          json_body = Inr (JObj [(''data'', JObj [(''auth'',
            JArr [JObj [(''permissionToken'', JStr ''pt''), (''authToken'', JStr ''at'')]])])])\<rparr>)
       (\<lambda>p a. Inr \<lparr>status_code = 500, json_body = Inl JSONDecodeError\<rparr>)
       ((initial_state ''u'' ''pw'')\<lparr>pending_offers := JArr [JObj [(''id'', JInt 7)]]\<rparr>)
     = ((initial_state ''u'' ''pw'')\<lparr>pending_offers := JArr [JObj [(''id'', JInt 7)]]\<rparr>,
        [StError ''Failed to fetch offers: '' (Exception ''Failed to retrieve offers'')], JNull)
   \<and> fetch_pending_offers
       (\<lambda>em pw ap. Inr \<lparr>status_code = 200,
          json_body = Inr (JObj [(''data'', JObj [(''auth'',
            JArr [JObj [(''permissionToken'', JStr ''pt''), (''authToken'', JStr ''at'')]])])])\<rparr>)
       (\<lambda>p a. Inr \<lparr>status_code = 200, json_body = Inr (JArr [])\<rparr>)
       ((initial_state ''u'' ''pw'')\<lparr>pending_offers := JArr [JObj [(''id'', JInt 7)]]\<rparr>)
     = ((initial_state ''u'' ''pw'')\<lparr>pending_offers := JArr [JObj [(''id'', JInt 7)]]\<rparr>,
        [StError ''Failed to fetch offers: '' AttributeError], JNull)
   \<and> fetch_pending_offers
       (\<lambda>em pw ap. Inr \<lparr>status_code = 200,
          json_body = Inr (JObj [(''data'', JObj [(''auth'',
            JArr [JObj [(''permissionToken'', JStr ''pt''), (''authToken'', JStr ''at'')]])])])\<rparr>)
       (\<lambda>p a. Inr \<lparr>status_code = 200,
          json_body = Inr (JObj [(''offers'', JArr [JObj [(''id'', JInt 8)]])])\<rparr>)
       ((initial_state ''u'' ''pw'')\<lparr>pending_offers := JArr [JObj [(''id'', JInt 7)]]\<rparr>)
     = ((initial_state ''u'' ''pw'')\<lparr>pending_offers := JArr [JObj [(''id'', JInt 8)]]\<rparr>,
        [], JObj [(''offers'', JArr [JObj [(''id'', JInt 8)]])])"
  using
    fetch_keeps_or_replaces
      [where post = "\<lambda>em pw ap. Inr \<lparr>status_code = 401, json_body = Inl JSONDecodeError\<rparr>"
         and get = "\<lambda>p a. Inl (ExternalError ''unreachable'')"
         and st = "(initial_state ''u'' ''pw'')\<lparr>pending_offers := JArr [JObj [(''id'', JInt 7)]]\<rparr>"
         and e = "Exception ''Authentication failed''"]
    fetch_keeps_or_replaces
      [where post = "\<lambda>em pw ap. Inr \<lparr>status_code = 200,
          json_body = Inr (JObj [(''data'', JObj [(''auth'',
            JArr [JObj [(''permissionToken'', JStr ''pt''), (''authToken'', JStr ''at'')]])])])\<rparr>"
         and get = "\<lambda>p a. Inr \<lparr>status_code = 500, json_body = Inl JSONDecodeError\<rparr>"
         and st = "(initial_state ''u'' ''pw'')\<lparr>pending_offers := JArr [JObj [(''id'', JInt 7)]]\<rparr>"
         and p = "JStr ''pt''" and a = "JStr ''at''"
         and e = "Exception ''Failed to retrieve offers''"]
    fetch_keeps_or_replaces
      [where post = "\<lambda>em pw ap. Inr \<lparr>status_code = 200,
          json_body = Inr (JObj [(''data'', JObj [(''auth'',
            JArr [JObj [(''permissionToken'', JStr ''pt''), (''authToken'', JStr ''at'')]])])])\<rparr>"
         and get = "\<lambda>p a. Inr \<lparr>status_code = 200, json_body = Inr (JArr [])\<rparr>"
         and st = "(initial_state ''u'' ''pw'')\<lparr>pending_offers := JArr [JObj [(''id'', JInt 7)]]\<rparr>"
         and p = "JStr ''pt''" and a = "JStr ''at''" and body = "JArr []"
         and e = AttributeError]
    fetch_keeps_or_replaces
      [where post = "\<lambda>em pw ap. Inr \<lparr>status_code = 200,
          json_body = Inr (JObj [(''data'', JObj [(''auth'',
            JArr [JObj [(''permissionToken'', JStr ''pt''), (''authToken'', JStr ''at'')]])])])\<rparr>"
         and get = "\<lambda>p a. Inr \<lparr>status_code = 200,
          json_body = Inr (JObj [(''offers'', JArr [JObj [(''id'', JInt 8)]])])\<rparr>"
         and st = "(initial_state ''u'' ''pw'')\<lparr>pending_offers := JArr [JObj [(''id'', JInt 7)]]\<rparr>"
         and p = "JStr ''pt''" and a = "JStr ''at''"
         and body = "JObj [(''offers'', JArr [JObj [(''id'', JInt 8)]])]"
         and v = "JArr [JObj [(''id'', JInt 8)]]"]
  by (simp add: authenticate_user_def get_pending_offers_def response_ok_def auth_field_def
      initial_state_def)

section \<open>Offer extraction\<close>

text \<open>
  Claim C8, as the code has it. The extraction fails, with one error shown and the state
  unchanged, when the completion raises and when its text, after the fence strip, does not
  decode. A decoded object is accepted whatever its fields: it becomes the draft and its
  copy, the offer counts as created and no error is shown. Nothing at extraction looks
  for \<^verbatim>\<open>offer_type\<close> or \<^verbatim>\<open>value\<close>.
\<close>

theorem generate_checks_json_only:
  "(llm d = Inl e \<longrightarrow>
      generate_offer loads llm d st = (st, [StError ''Error generating offer: '' e]))
   \<and> (llm d = Inr c \<and> loads (sub_fence c) = Inl e \<longrightarrow>
      generate_offer loads llm d st = (st, [StError ''Error generating offer: '' e]))
   \<and> (llm d = Inr c \<and> loads (sub_fence c) = Inr (JObj kvs) \<longrightarrow>
      generate_offer loads llm d st
        = (st\<lparr>offer_params := JObj kvs, adjusted_params := JObj kvs, offer_created := True\<rparr>, []))"
  by (simp add: generate_offer_def)

theorem generate_checks_json_only_witness:
  \<open>generate_offer (loads_table []) (\<lambda>d. Inl (ExternalError ''rate limit''))
       ''20 dollars cashback'' (initial_state [] [])
     = (initial_state [] [], [StError ''Error generating offer: '' (ExternalError ''rate limit'')])
   \<and> loads_table [] (sub_fence ''I cannot help with that.'') = Inl JSONDecodeError
   \<and> generate_offer (loads_table []) (\<lambda>d. Inr ''I cannot help with that.'')
       ''20 dollars cashback'' (initial_state [] [])
     = (initial_state [] [], [StError ''Error generating offer: '' JSONDecodeError])
   \<and> generate_offer
       (loads_table [(''{"offer_type": "cashback", "value": 20}'',
                      JObj [(''offer_type'', JStr ''cashback''), (''value'', JInt 20)])])
       (\<lambda>d. Inr ''{"offer_type": "cashback", "value": 20}'')
       ''20 dollars cashback'' (initial_state [] [])
     = ((initial_state [] [])
          \<lparr>offer_params := JObj [(''offer_type'', JStr ''cashback''), (''value'', JInt 20)],
           adjusted_params := JObj [(''offer_type'', JStr ''cashback''), (''value'', JInt 20)],
           offer_created := True\<rparr>, [])\<close>
  using
    generate_checks_json_only
      [where llm = "\<lambda>d. Inl (ExternalError ''rate limit'')" and loads = "loads_table []"
         and d = "''20 dollars cashback''" and st = "initial_state [] []"
         and e = "ExternalError ''rate limit''"]
    generate_checks_json_only
      [where llm = "\<lambda>d. Inr ''I cannot help with that.''" and loads = "loads_table []"
         and d = "''20 dollars cashback''" and st = "initial_state [] []"
         and c = "''I cannot help with that.''" and e = JSONDecodeError]
    generate_checks_json_only
      [where llm = \<open>\<lambda>d. Inr ''{"offer_type": "cashback", "value": 20}''\<close>
         and loads = \<open>loads_table [(''{"offer_type": "cashback", "value": 20}'',
                      JObj [(''offer_type'', JStr ''cashback''), (''value'', JInt 20)])]\<close>
         and d = "''20 dollars cashback''" and st = "initial_state [] []"
         and c = \<open>''{"offer_type": "cashback", "value": 20}''\<close>
         and kvs = "[(''offer_type'', JStr ''cashback''), (''value'', JInt 20)]"]
  by (simp add: loads_table_def match_fence_def fence_json_def)

text \<open>
  Against claim C8 as stated: the model answers, in a labelled fence, an object that has
  neither \<^verbatim>\<open>offer_type\<close> nor \<^verbatim>\<open>value\<close>. The extraction does not fail: the object is stored
  as the draft and no message is shown.
\<close>

theorem generate_missing_fields_counterexample:
  \<open>map_of [(''offer_name'', JStr ''Deal'')] ''offer_type'' = None
   \<and> map_of [(''offer_name'', JStr ''Deal'')] ''value'' = None
   \<and> generate_offer
        (loads_table [(''{"offer_name": "Deal"}'', JObj [(''offer_name'', JStr ''Deal'')])])
        (\<lambda>d. Inr (''```json'' @ newline @ ''{"offer_name": "Deal"}'' @ newline @ ''```''))
        ''a deal'' (initial_state [] [])
     = ((initial_state [] [])\<lparr>offer_params := JObj [(''offer_name'', JStr ''Deal'')],
           adjusted_params := JObj [(''offer_name'', JStr ''Deal'')], offer_created := True\<rparr>, [])\<close>
  by (simp add: generate_offer_def loads_table_def match_fence_def fence_json_def newline_def
      fence_def)

section \<open>The offer view and the quick filters\<close>

text \<open>
  Claim C10: when the filtered collection is the empty list, the collection chosen for
  display is the base collection; a non-empty filtered list is the one displayed; and
  whenever something other than the base collection is displayed, it is the filtered
  collection and that collection is not empty.
\<close>

theorem display_falls_back_to_base:
  "(filtered_offers st = JArr [] \<longrightarrow> offers_to_display st = pending_offers st)
   \<and> (filtered_offers st = JArr (y # ys) \<longrightarrow> offers_to_display st = JArr (y # ys))
   \<and> (offers_to_display st \<noteq> pending_offers st \<longrightarrow>
        truthy (filtered_offers st) \<and> offers_to_display st = filtered_offers st)"
  by (simp add: offers_to_display_def py_or_def)

theorem display_falls_back_to_base_witness:
  "offers_to_display ((initial_state [] [])\<lparr>pending_offers := JArr [JObj [(''id'', JInt 1)]],
        filtered_offers := JArr []\<rparr>) = JArr [JObj [(''id'', JInt 1)]]
   \<and> offers_to_display ((initial_state [] [])\<lparr>pending_offers :=
          JArr [JObj [(''id'', JInt 1)], JObj [(''id'', JInt 2)]],
        filtered_offers := JArr [JObj [(''id'', JInt 2)]]\<rparr>) = JArr [JObj [(''id'', JInt 2)]]
   \<and> truthy (JArr [JObj [(''id'', JInt 2)]])"
  using
    display_falls_back_to_base [where st = "(initial_state [] [])\<lparr>pending_offers :=
        JArr [JObj [(''id'', JInt 1)]], filtered_offers := JArr []\<rparr>"]
    display_falls_back_to_base [where st = "(initial_state [] [])\<lparr>pending_offers :=
          JArr [JObj [(''id'', JInt 1)], JObj [(''id'', JInt 2)]],
        filtered_offers := JArr [JObj [(''id'', JInt 2)]]\<rparr>" and y = "JObj [(''id'', JInt 2)]"
        and ys = "[]"]
  by simp

text \<open>
  Claim C7, evaluated on the code. In the state the script starts in, no base collection
  is loaded. "Search Offers" is guarded: it shows the warning and leaves the state as it
  is. The two quick filters have no such guard: each iterates over \<^verbatim>\<open>None\<close>, which raises
  a \<^verbatim>\<open>TypeError\<close> that nothing catches. The state is not changed, but the run ends with the
  exception and not with a warning.
\<close>

theorem quick_filters_raise_when_unloaded:
  "pending_offers (initial_state em pw) = JNull
   \<and> search_offers loads llm q (initial_state em pw)
       = (initial_state em pw, [StWarning ''No offers loaded. Refresh first.''])
   \<and> expiring_soon now (initial_state em pw) = Inl TypeError
   \<and> high_value above_50 (initial_state em pw) = Inl TypeError"
  by (simp add: initial_state_def search_offers_def expiring_soon_def high_value_def)

subsection \<open>Expiring soon\<close>

lemma expires_within_week_no_duration:
  "map_of kvs ''duration'' = None \<Longrightarrow> expires_within_week now (JObj kvs) = Inr False"
  by (simp add: expires_within_week_def)

lemma expires_within_week_no_expiry:
  "map_of kvs ''duration'' = Some (JObj dvs) \<Longrightarrow> map_of dvs ''to'' = None \<Longrightarrow>
     expires_within_week now (JObj kvs) = Inr False"
  by (simp add: expires_within_week_def)

lemma expires_within_week_dated:
  "map_of kvs ''duration'' = Some (JObj dvs) \<Longrightarrow> map_of dvs ''to'' = Some (JStr s) \<Longrightarrow>
   s \<noteq> [] \<Longrightarrow>
     expires_within_week now (JObj kvs)
       = bind_e (strptime s) (\<lambda>expiry. Inr (timedelta_days expiry now \<le> 7))"
  by (simp add: expires_within_week_def)

lemma timedelta_days_whole: "timedelta_days (now + n * one_day) now = n"
  by (simp add: timedelta_days_def one_day_def)

lemma int_div_le_iff:
  fixes x d n :: int
  assumes "0 < d"
  shows "x div d \<le> n \<longleftrightarrow> x < (n + 1) * d"
proof
  assume le: "x div d \<le> n"
  have "x = d * (x div d) + x mod d" by simp
  moreover have "x mod d < d" using assms by simp
  moreover have "d * (x div d) \<le> d * n"
    using le assms by (simp add: mult_left_mono)
  ultimately have "x < d * n + d" by linarith
  then show "x < (n + 1) * d" by (simp add: algebra_simps)
next
  assume lt: "x < (n + 1) * d"
  show "x div d \<le> n"
  proof (rule ccontr)
    assume "\<not> x div d \<le> n"
    then have "n + 1 \<le> x div d" by simp
    then have "d * (n + 1) \<le> d * (x div d)"
      using assms by (simp add: mult_left_mono)
    moreover have "d * (x div d) \<le> x"
      using assms by (metis add.commute le_add_same_cancel2 mult_div_mod_eq pos_mod_sign)
    ultimately show False using lt by (simp add: algebra_simps)
  qed
qed

text \<open>The test \<^verbatim>\<open>.days <= 7\<close> holds exactly when the expiry is less than eight days ahead.\<close>

lemma timedelta_days_le: "timedelta_days e now \<le> 7 \<longleftrightarrow> e - now < 8 * one_day"
  unfolding timedelta_days_def
  using int_div_le_iff [of one_day "e - now" 7] by (simp add: one_day_def)

lemma strptime_plus_7:
  "strptime ''2025-01-08 10:30'' = Inr (mk_datetime 2025 1 1 10 30 + 7 * one_day)"
  by code_simp

lemma strptime_plus_8:
  "strptime ''2025-01-09 10:30'' = Inr (mk_datetime 2025 1 1 10 30 + 8 * one_day)"
  by code_simp

lemma week_included:
  "expires_within_week (mk_datetime 2025 1 1 10 30)
     (JObj [(''id'', JInt 1), (''duration'', JObj [(''to'', JStr ''2025-01-08 10:30'')])])
     = Inr True"
  by (simp add: expires_within_week_def strptime_plus_7 timedelta_days_whole)

lemma week_excluded:
  "expires_within_week (mk_datetime 2025 1 1 10 30)
     (JObj [(''id'', JInt 2), (''duration'', JObj [(''to'', JStr ''2025-01-09 10:30'')])])
     = Inr False"
  by (simp add: expires_within_week_def strptime_plus_8 timedelta_days_whole)

lemma week_missing:
  "expires_within_week (mk_datetime 2025 1 1 10 30) (JObj [(''id'', JInt 3)]) = Inr False"
  by (simp add: expires_within_week_def)

text \<open>
  At 2025-01-01 10:30, of an offer that expires exactly seven days later, one that expires
  eight days later and one without expiry, the filter keeps the first only.
\<close>

lemma expiring_soon_boundary:
  "expiring_soon (\<lambda>i. mk_datetime 2025 1 1 10 30)
     (st\<lparr>pending_offers := JArr
        [JObj [(''id'', JInt 1), (''duration'', JObj [(''to'', JStr ''2025-01-08 10:30'')])],
         JObj [(''id'', JInt 2), (''duration'', JObj [(''to'', JStr ''2025-01-09 10:30'')])],
         JObj [(''id'', JInt 3)]]\<rparr>)
   = Inr (st\<lparr>pending_offers := JArr
        [JObj [(''id'', JInt 1), (''duration'', JObj [(''to'', JStr ''2025-01-08 10:30'')])],
         JObj [(''id'', JInt 2), (''duration'', JObj [(''to'', JStr ''2025-01-09 10:30'')])],
         JObj [(''id'', JInt 3)]],
       filtered_offers := JArr
        [JObj [(''id'', JInt 1), (''duration'', JObj [(''to'', JStr ''2025-01-08 10:30'')])]]\<rparr>)"
  unfolding expiring_soon_def
  by (simp add: week_included week_excluded week_missing)

lemma strptime_rejects_no_end_date:
  "strptime ''No end date'' = Inl ValueError \<and> strptime ''no end date'' = Inl ValueError"
  by (simp add: strptime_def strptime_matches_def is_digit_def)

text \<open>
  Claim C4, evaluated on the code. The window test itself is as the claim says
  (\<open>timedelta_days_le\<close>, \<open>expiring_soon_boundary\<close>), and an offer without expiry is left
  out. An expiry that is the text \<^verbatim>\<open>No end date\<close> is not: it is truthy, so it is handed to
  \<^verbatim>\<open>strptime\<close>, which raises \<^verbatim>\<open>ValueError\<close>; nothing catches it and the filter ends without a
  result. The offer card, for the same offer, tests for that text and parses nothing.
\<close>

theorem expiring_soon_raises_on_no_end_date:
  "expiring_soon now
     (st\<lparr>pending_offers :=
        JArr [JObj [(''id'', JInt 1), (''duration'', JObj [(''to'', JStr ''No end date'')])]]\<rparr>)
     = Inl ValueError
   \<and> days_left today
        (JObj [(''id'', JInt 1), (''duration'', JObj [(''to'', JStr ''No end date'')])])
     = Inr None"
  by (simp add: expiring_soon_def expires_within_week_def days_left_def strptime_def
      strptime_matches_def is_digit_def)

subsection \<open>The sort of the view\<close>

lemma expiry_key_constant: "expiry_key x = Inr k \<Longrightarrow> k = ''9999-12-31''"
  unfolding expiry_key_def
  by (auto simp: bind_e_def split: sum.splits if_splits)

lemma expiry_key_dated:
  "truthy t \<Longrightarrow> expiry_key (JObj [(''duration'', JObj [(''to'', t)])]) = Inl TypeError"
  by (simp add: expiry_key_def)

lemma map_e_constant:
  "map_e f xs = Inr ks \<Longrightarrow> (\<And>x k. f x = Inr k \<Longrightarrow> k = c) \<Longrightarrow> ks = replicate (length xs) c"
proof (induction xs arbitrary: ks)
  case Nil
  then show ?case by simp
next
  case (Cons x xs)
  then show ?case by (auto split: sum.splits)
qed

lemma sort_key_constant:
  "(\<And>x. x \<in> set xs \<Longrightarrow> f x = c) \<Longrightarrow> sort_key f xs = xs"
proof (induction xs)
  case Nil
  then show ?case by simp
next
  case (Cons x xs)
  then have "sort_key f xs = xs" by simp
  moreover have "insort_key f x xs = x # xs"
    using Cons.prems by (cases xs) auto
  ultimately show ?case by simp
qed

text \<open>
  Whenever the sort returns at all, every key was the constant \<^verbatim>\<open>'9999-12-31'\<close> and the
  list is left in the order it had: the sort never orders by date.
\<close>

lemma display_sort_changes_nothing:
  assumes "display_sort v = Inr w"
  shows "w = v"
proof -
  from assms obtain xs ks where v: "v = JArr xs" and ks: "map_e expiry_key xs = Inr ks"
    and w: "w = JArr (map snd (sort_key fst (zip ks xs)))"
    by (cases v) (auto simp: display_sort_def bind_e_def split: sum.splits)
  have "ks = replicate (length xs) ''9999-12-31''"
    using ks expiry_key_constant by (rule map_e_constant)
  then have "\<And>p. p \<in> set (zip ks xs) \<Longrightarrow> fst p = ''9999-12-31''"
    by (auto simp: set_zip)
  then have "sort_key fst (zip ks xs) = zip ks xs" by (rule sort_key_constant)
  moreover have "length ks = length xs"
    using \<open>ks = replicate (length xs) ''9999-12-31''\<close> by simp
  ultimately show ?thesis using v w by simp
qed

text \<open>
  Claim C5, evaluated on the code. For an offer that has an expiry, well-formed or not,
  the key function calls \<^verbatim>\<open>strptime\<close> with one argument and raises \<^verbatim>\<open>TypeError\<close>; the sort of
  a view that holds one such offer raises with it, so no ascending order by expiry is
  produced.
\<close>

theorem display_sort_raises_on_expiry:
  "display_sort
     (JArr [JObj [(''id'', JInt 1), (''duration'', JObj [(''to'', JStr ''2025-01-08 10:30'')])]])
     = Inl TypeError"
  by (simp add: display_sort_def expiry_key_def)

end
